theory Spec2Isabelle
  imports Complex_Main
begin

section \<open>JavaScript values used by the components\<close>

text \<open>
  Truthiness of a possibly absent string (\<open>undefined\<close>, \<open>null\<close> and the empty string are
  falsy), as tested by \<open>if (x)\<close>, \<open>x && ...\<close> and \<open>x || d\<close>.
\<close>

definition truthy :: "string option \<Rightarrow> bool" where
  "truthy x = (case x of None \<Rightarrow> False | Some s \<Rightarrow> s \<noteq> [])"

text \<open>\<open>x || d\<close> on a possibly absent string.\<close>

definition orElse :: "string option \<Rightarrow> string \<Rightarrow> string" where
  "orElse x d = (case x of None \<Rightarrow> d | Some s \<Rightarrow> if s = [] then d else s)"

subsection \<open>parseInt(value, 10)\<close>

text \<open>
  \<open>parseInt\<close> skips leading white space, reads an optional sign, and converts the longest
  prefix of decimal digits that follows; with no digit there, the result is \<open>NaN\<close>
  (here \<open>None\<close>). Whatever follows the digits is ignored. The model covers the white space
  characters of the 8-bit range and keeps the integer exact (a JavaScript number rounds
  integers beyond \<open>2^53\<close>).
\<close>

definition isWhiteSpace :: "char \<Rightarrow> bool" where
  "isWhiteSpace c = (c \<in> set [CHR '' '', CHR 0x09, CHR 0x0A, CHR 0x0B, CHR 0x0C, CHR 0x0D])"

definition isDigit :: "char \<Rightarrow> bool" where
  "isDigit c = (48 \<le> (of_char c :: nat) \<and> (of_char c :: nat) \<le> 57)"

definition digitValue :: "char \<Rightarrow> int" where
  "digitValue c = int (of_char c) - 48"

definition digitsValue :: "string \<Rightarrow> int" where
  "digitsValue ds = foldl (\<lambda>acc c. 10 * acc + digitValue c) 0 ds"

definition parseInt :: "string \<Rightarrow> int option" where
  "parseInt inputString =
     (let s = dropWhile isWhiteSpace inputString;
          sign = (case s of c # _ \<Rightarrow> if c = CHR ''-'' then - 1 else 1 | [] \<Rightarrow> (1::int));
          s' = (case s of c # r \<Rightarrow> if c = CHR ''-'' \<or> c = CHR ''+'' then r else s | [] \<Rightarrow> s);
          z = takeWhile isDigit s'
      in if z = [] then None else Some (sign * digitsValue z))"

section \<open>RulesMatrix: the linking rule matrix\<close>

text \<open>
  A cell of the matrix is the object \<open>{ min_links, max_links }\<close>; the matrix is the nested
  object \<open>rules[sourceType][targetType]\<close>. The component's other state variables are kept
  beside it (\<open>error\<close>, \<open>success\<close>, \<open>loading\<close> and \<open>saving\<close> of the component, prefixed here
  because record fields share one name space).
\<close>

record cell =
  min_links :: int
  max_links :: int

type_synonym rules = "string \<rightharpoonup> (string \<rightharpoonup> cell)"

datatype field = MinLinksField | MaxLinksField

record rulesMatrix =
  rules :: rules
  rulesError :: "string option"
  rulesSuccess :: bool
  rulesLoading :: bool
  rulesSaving :: bool

text \<open>
  \<open>handleRuleChange(sourceType, targetType, field, value)\<close>. \<open>None\<close> is the early
  \<open>return\<close> taken before \<open>setRules\<close>; \<open>Some\<close> carries the component state after
  \<open>setRules(newRules)\<close>. The source copies \<open>rules\<close> shallowly and writes into the nested
  objects; the value of the new \<open>rules\<close> is the one computed here. Segment names are taken
  to be own keys of these objects: a name that every object inherits (\<open>constructor\<close>,
  \<open>toString\<close>) is found by the source without a row being created, and is outside the model.
\<close>

definition handleRuleChange ::
  "rulesMatrix \<Rightarrow> string \<Rightarrow> string \<Rightarrow> field \<Rightarrow> string \<Rightarrow> rulesMatrix option" where
  "handleRuleChange st sourceType targetType fld v =
     (case parseInt v of
        None \<Rightarrow> None
      | Some numValue \<Rightarrow>
          if numValue < 0 then None
          else
            let row = (case rules st sourceType of None \<Rightarrow> Map.empty | Some r \<Rightarrow> r);
                c0 = (case row targetType of
                        None \<Rightarrow> \<lparr>min_links = 0, max_links = 0\<rparr>
                      | Some c \<Rightarrow> c);
                c1 = (case fld of
                        MinLinksField \<Rightarrow> c0\<lparr>min_links := numValue\<rparr>
                      | MaxLinksField \<Rightarrow> c0\<lparr>max_links := numValue\<rparr>);
                c2 = (if fld = MinLinksField \<and> numValue > max_links c1
                      then c1\<lparr>max_links := numValue\<rparr> else c1);
                c3 = (if fld = MaxLinksField \<and> numValue < min_links c2
                      then c2\<lparr>min_links := numValue\<rparr> else c2)
            in Some (st\<lparr>rules := (rules st)(sourceType \<mapsto> row(targetType \<mapsto> c3))\<rparr>))"

text \<open>The state of the component after a call: unchanged when the call returned early.\<close>

definition afterRuleChange ::
  "rulesMatrix \<Rightarrow> string \<times> string \<times> field \<times> string \<Rightarrow> rulesMatrix" where
  "afterRuleChange st call =
     (case call of (sourceType, targetType, fld, v) \<Rightarrow>
        (case handleRuleChange st sourceType targetType fld v of
           None \<Rightarrow> st
         | Some st' \<Rightarrow> st'))"


text \<open>The cell shown for a pair of segments, if the matrix holds one.\<close>

definition cellAt :: "rulesMatrix \<Rightarrow> string \<Rightarrow> string \<Rightarrow> cell option" where
  "cellAt st sourceType targetType =
     (case rules st sourceType of None \<Rightarrow> None | Some row \<Rightarrow> row targetType)"

text \<open>The cell a write starts from: the stored one, or \<open>{ min_links: 0, max_links: 0 }\<close>.\<close>

definition cellOrDefault :: "rulesMatrix \<Rightarrow> string \<Rightarrow> string \<Rightarrow> cell" where
  "cellOrDefault st sourceType targetType =
     (case cellAt st sourceType targetType of
        None \<Rightarrow> \<lparr>min_links = 0, max_links = 0\<rparr>
      | Some c \<Rightarrow> c)"


text \<open>
  The spec's "non-negative integer" for the text of an input field: a non-empty string of
  decimal digits.
\<close>

definition isNonNegativeInteger :: "string \<Rightarrow> bool" where
  "isNonNegativeInteger v = (v \<noteq> [] \<and> list_all isDigit v)"


section \<open>ProgressTracker: the canonical job status\<close>

text \<open>
  Message texts of the source contain accented letters; they are written here as their UTF-8
  bytes.
\<close>

definition eAcute :: string where
  "eAcute = [CHR 0xC3, CHR 0xA9]"

definition eGrave :: string where
  "eGrave = [CHR 0xC3, CHR 0xA8]"

definition capitalEAcute :: string where
  "capitalEAcute = [CHR 0xC3, CHR 0x89]"

text \<open>
  A status frame or poll response, \<open>{ status, progress, message, result_file? }\<close>. The objects
  are duck-typed: \<open>message\<close> and \<open>result_file\<close> may be absent, and any further own
  properties are kept in \<open>otherFields\<close>.
\<close>

record frame =
  status :: string
  progress :: int
  message :: "string option"
  result_file :: "string option"
  otherFields :: "(string \<times> string) list"

text \<open>
  The state variables of the component (\<open>useState\<close>) and the \<open>readyState\<close> reported by the
  WebSocket hook.
\<close>

record tracker =
  jobStatus :: "frame option"
  loading :: bool
  error :: "string option"
  logHistory :: "string list"
  readyState :: int

definition initialTracker :: tracker where
  "initialTracker =
     \<lparr>jobStatus = None, loading = True, error = None, logHistory = [], readyState = 0\<rparr>"

text \<open>
  The outcome of an awaited HTTP request: the response body, or a rejection carrying
  \<open>err.response?.data?.detail\<close>.
\<close>

datatype 'a settled = Resolved 'a | Rejected "string option"

text \<open>What a handler asks of the outside world.\<close>

datatype command = GetJob | GetForceComplete | SendPing | Alert string

text \<open>\<open>onOpen\<close> and \<open>onError\<close> of the WebSocket hook; \<open>onError\<close> calls \<open>fetchStatusHTTP\<close>.\<close>

definition onOpen :: "tracker \<Rightarrow> tracker \<times> command list" where
  "onOpen t = (t\<lparr>loading := False\<rparr>, [])"

definition onError :: "tracker \<Rightarrow> tracker \<times> command list" where
  "onError t =
     (t\<lparr>error := Some ''Erreur de connexion au serveur WebSocket'', loading := False\<rparr>,
      [GetJob])"

definition onClose :: "tracker \<Rightarrow> tracker \<times> command list" where
  "onClose t = (t, [])"

text \<open>
  \<open>fetchStatusHTTP\<close> after its \<open>await\<close>: the response replaces \<open>jobStatus\<close>; a rejection
  sets \<open>error\<close>.
\<close>

definition statusErrorMessage :: string where
  "statusErrorMessage =
     ''Erreur lors de la r'' @ eAcute @ ''cup'' @ eAcute @ ''ration du statut''"

definition fetchStatusHTTP_then ::
  "tracker \<Rightarrow> frame option settled \<Rightarrow> tracker \<times> command list" where
  "fetchStatusHTTP_then t r =
     (case r of
        Resolved data \<Rightarrow> (t\<lparr>jobStatus := data, loading := False\<rparr>, [])
      | Rejected detail \<Rightarrow>
          (t\<lparr>error := Some (orElse detail statusErrorMessage), loading := False\<rparr>, []))"

text \<open>
  The effect on \<open>lastJsonMessage\<close>: a message that is not falsy replaces \<open>jobStatus\<close>, and its
  \<open>message\<close>, when truthy and different from the last log entry, is appended to the log.
\<close>

definition onLastJsonMessage :: "tracker \<Rightarrow> frame option \<Rightarrow> tracker \<times> command list" where
  "onLastJsonMessage t lastJsonMessage =
     (case lastJsonMessage of
        None \<Rightarrow> (t, [])
      | Some f \<Rightarrow>
          (case message f of
             None \<Rightarrow> (t\<lparr>jobStatus := Some f\<rparr>, [])
           | Some m \<Rightarrow>
               if m \<noteq> [] \<and> (length (logHistory t) = 0 \<or> last (logHistory t) \<noteq> m)
               then (t\<lparr>jobStatus := Some f, logHistory := logHistory t @ [m]\<rparr>, [])
               else (t\<lparr>jobStatus := Some f\<rparr>, [])))"

text \<open>The 5 second interval: a ping goes out only while the socket is OPEN (1).\<close>

definition onPingInterval :: "tracker \<Rightarrow> tracker \<times> command list" where
  "onPingInterval t = (t, if readyState t = 1 then [SendPing] else [])"

text \<open>
  The effect on \<open>[jobId, readyState]\<close>, run when the hook reports another \<open>readyState\<close>:
  \<open>fetchStatusHTTP\<close> is called when there is a job id and the socket is CLOSED (3).
\<close>

definition onReadyState :: "string option \<Rightarrow> tracker \<Rightarrow> int \<Rightarrow> tracker \<times> command list" where
  "onReadyState jobId t n =
     (if n = readyState t then (t, [])
      else (t\<lparr>readyState := n\<rparr>, if truthy jobId \<and> n = 3 then [GetJob] else []))"

text \<open>
  \<open>handleStopAnalysis\<close>: the request, and what follows its \<open>await\<close>. A response with status
  \<open>completed\<close> is merged over the previous \<open>jobStatus\<close> (\<open>{...prev, ...}\<close>; a \<open>null\<close> previous
  value spreads to no property).
\<close>

definition forcedMessage :: string where
  "forcedMessage =
     ''Analyse termin'' @ eAcute @ ''e avec succ'' @ eGrave @ ''s (forc'' @ eAcute @ '')''"

definition forceAlertMessage :: string where
  "forceAlertMessage =
     ''Impossible de forcer la compl'' @ eAcute @ ''tion de l'' @ [CHR 0x27]
       @ ''analyse. Veuillez r'' @ eAcute @ ''essayer.''"

definition handleStopAnalysis :: "tracker \<Rightarrow> tracker \<times> command list" where
  "handleStopAnalysis t = (t, [GetForceComplete])"

definition handleStopAnalysis_then ::
  "tracker \<Rightarrow> frame settled \<Rightarrow> tracker \<times> command list" where
  "handleStopAnalysis_then t r =
     (case r of
        Resolved data \<Rightarrow>
          if status data = ''completed''
          then (t\<lparr>jobStatus := Some
                    \<lparr>status = ''completed'', progress = 100, message = Some forcedMessage,
                     result_file = result_file data,
                     otherFields = (case jobStatus t of None \<Rightarrow> [] | Some prev \<Rightarrow> otherFields prev)\<rparr>\<rparr>,
                [])
          else (t, [])
      | Rejected detail \<Rightarrow> (t, [Alert forceAlertMessage]))"

text \<open>
  The events the event loop hands to the component, one at a time; the component renders
  between two of them, so each handler reads the state the one before left.
\<close>

datatype event =
    WsOpen
  | WsError
  | WsClose
  | WsMessage "frame option"
  | WsReadyState int
  | PingInterval
  | StatusResponse "frame option settled"
  | StopClicked
  | ForceResponse "frame settled"

definition trackerStep :: "string option \<Rightarrow> tracker \<Rightarrow> event \<Rightarrow> tracker \<times> command list" where
  "trackerStep jobId t ev =
     (case ev of
        WsOpen \<Rightarrow> onOpen t
      | WsError \<Rightarrow> onError t
      | WsClose \<Rightarrow> onClose t
      | WsMessage m \<Rightarrow> onLastJsonMessage t m
      | WsReadyState n \<Rightarrow> onReadyState jobId t n
      | PingInterval \<Rightarrow> onPingInterval t
      | StatusResponse r \<Rightarrow> fetchStatusHTTP_then t r
      | StopClicked \<Rightarrow> handleStopAnalysis t
      | ForceResponse r \<Rightarrow> handleStopAnalysis_then t r)"

definition runTracker :: "string option \<Rightarrow> tracker \<Rightarrow> event list \<Rightarrow> tracker" where
  "runTracker jobId t evs = foldl (\<lambda>t' ev. fst (trackerStep jobId t' ev)) t evs"

subsection \<open>What the component renders\<close>

definition getStatusColor :: "string \<Rightarrow> string" where
  "getStatusColor s =
     (if s = ''completed'' then ''success''
      else if s = ''failed'' then ''error''
      else if s = ''running'' then ''primary''
      else if s = ''queued'' then ''warning''
      else ''default'')"

definition getStatusLabel :: "string \<Rightarrow> string" where
  "getStatusLabel s =
     (if s = ''completed'' then ''Termin'' @ eAcute
      else if s = ''failed'' then capitalEAcute @ ''chou'' @ eAcute
      else if s = ''running'' then ''En cours''
      else if s = ''queued'' then ''En attente''
      else ''Inconnu'')"

record statusPanel =
  chipLabel :: string
  chipColor :: string
  messageText :: "string option"
  progressValue :: int
  logItems :: "string list"
  resultActions :: bool
  forceButton :: bool
  failedNotice :: bool

datatype view = LoadingPanel | ErrorPanel string | NoJobPanel | StatusPanel statusPanel

definition render :: "tracker \<Rightarrow> view" where
  "render t =
     (if loading t then LoadingPanel
      else if truthy (error t) then ErrorPanel (orElse (error t) [])
      else
        (case jobStatus t of
           None \<Rightarrow> NoJobPanel
         | Some js \<Rightarrow>
             StatusPanel
               \<lparr>chipLabel = getStatusLabel (status js),
                chipColor = getStatusColor (status js),
                messageText = message js,
                progressValue = progress js,
                logItems = logHistory t,
                resultActions =
                  (status js = ''completed'' \<or> (truthy (result_file js) \<and> progress js = 100)),
                forceButton = (status js = ''running''),
                failedNotice = (status js = ''failed'')\<rparr>))"

text \<open>No two neighbouring entries of a log are the same text.\<close>

fun noAdjacentRepeat :: "string list \<Rightarrow> bool" where
  "noAdjacentRepeat (x # y # ys) = (x \<noteq> y \<and> noAdjacentRepeat (y # ys))"
| "noAdjacentRepeat _ = True"

section \<open>AnalysisPage: the workflow\<close>

text \<open>A file descriptor returned by an upload.\<close>

record fileDescriptor =
  path :: string
  filename :: string

text \<open>
  The state variables of the page. \<open>error\<close> of the page is \<open>pageError\<close> here. Step 0 collects
  the files, step 1 is the configuration, step 2 shows the analysis.
\<close>

record analysisPage =
  activeStep :: int
  contentFile :: "fileDescriptor option"
  linksFile :: "fileDescriptor option"
  gscFile :: "fileDescriptor option"
  minSimilarity :: real
  anchorSuggestions :: int
  analyzing :: bool
  pageError :: "string option"
  jobId :: "string option"

definition initialPage :: analysisPage where
  "initialPage =
     \<lparr>activeStep = 0, contentFile = None, linksFile = None, gscFile = None,
      minSimilarity = 0.2, anchorSuggestions = 3, analyzing = False, pageError = None,
      jobId = None\<rparr>"

text \<open>
  The multipart form of a submission: the paths of the files, and the configuration that
  \<open>JSON.stringify\<close> writes.
\<close>

datatype formValue = PathValue string | ConfigValue real int

datatype request = PostAnalyze "(string \<times> formValue) list"

definition buildFormData :: "analysisPage \<Rightarrow> fileDescriptor \<Rightarrow> (string \<times> formValue) list" where
  "buildFormData p content =
     [(''content_file'', PathValue (path content))]
     @ (case linksFile p of None \<Rightarrow> [] | Some l \<Rightarrow> [(''links_file'', PathValue (path l))])
     @ (case gscFile p of None \<Rightarrow> [] | Some g \<Rightarrow> [(''gsc_file'', PathValue (path g))])
     @ [(''config'', ConfigValue (minSimilarity p) (anchorSuggestions p))]"

definition missingContentMessage :: string where
  "missingContentMessage =
     ''Veuillez t'' @ eAcute @ ''l'' @ eAcute @ ''charger un fichier de contenu''"

definition startErrorMessage :: string where
  "startErrorMessage =
     ''Erreur lors du d'' @ eAcute @ ''marrage de l'' @ [CHR 0x27] @ ''analyse''"

text \<open>
  \<open>startAnalysis\<close> up to its \<open>await\<close>: without a content file it sets the error and returns;
  otherwise it clears the error, sets \<open>analyzing\<close> and posts the form. It does not look at
  \<open>analyzing\<close>.
\<close>

definition startAnalysis :: "analysisPage \<Rightarrow> analysisPage \<times> request list" where
  "startAnalysis p =
     (case contentFile p of
        None \<Rightarrow> (p\<lparr>pageError := Some missingContentMessage\<rparr>, [])
      | Some content \<Rightarrow>
          (p\<lparr>pageError := None, analyzing := True\<rparr>, [PostAnalyze (buildFormData p content)]))"

text \<open>
  \<open>startAnalysis\<close> after its \<open>await\<close>: the response's \<open>job_id\<close> is stored and step 2 is
  shown; a rejection sets the error and clears \<open>analyzing\<close>.
\<close>

definition startAnalysis_then :: "analysisPage \<Rightarrow> string option settled \<Rightarrow> analysisPage" where
  "startAnalysis_then p r =
     (case r of
        Resolved job_id \<Rightarrow> p\<lparr>jobId := job_id, activeStep := 2\<rparr>
      | Rejected reason \<Rightarrow> p\<lparr>pageError := Some startErrorMessage, analyzing := False\<rparr>)"

definition handleNext :: "analysisPage \<Rightarrow> analysisPage" where
  "handleNext p = p\<lparr>activeStep := activeStep p + 1\<rparr>"

definition handleBack :: "analysisPage \<Rightarrow> analysisPage" where
  "handleBack p = p\<lparr>activeStep := activeStep p - 1\<rparr>"

definition handleReset :: "analysisPage \<Rightarrow> analysisPage" where
  "handleReset p =
     p\<lparr>activeStep := 0, contentFile := None, linksFile := None, gscFile := None,
       jobId := None, pageError := None\<rparr>"

text \<open>
  The button on the right: "Nouvelle analyse" on the last step; otherwise a button that
  is disabled on step 0 without a content file, starts the analysis on step 1 and goes to
  the next step elsewhere.
\<close>

definition mainButton :: "analysisPage \<Rightarrow> analysisPage \<times> request list" where
  "mainButton p =
     (if activeStep p = 2 then (handleReset p, [])
      else if activeStep p = 0 \<and> contentFile p = None then (p, [])
      else if activeStep p = 1 then startAnalysis p
      else (handleNext p, []))"

text \<open>The stages of the workflow, read off the state variables.\<close>

definition collectingInputs :: "analysisPage \<Rightarrow> bool" where
  "collectingInputs p = (activeStep p = 0)"

definition configuring :: "analysisPage \<Rightarrow> bool" where
  "configuring p = (activeStep p = 1 \<and> \<not> analyzing p)"

definition submitting :: "analysisPage \<Rightarrow> bool" where
  "submitting p = (activeStep p = 1 \<and> analyzing p)"

subsection \<open>The page together with the tracker it renders\<close>

text \<open>
  Step 2 renders \<open>analyzing ? <CircularProgress /> : <ProgressTracker jobId={jobId} />\<close>; no
  other step renders the tracker. A component that is no longer rendered is unmounted:
  its state is dropped, its interval is cleared by the effect's cleanup, its socket
  subscription ends, and a late response sets no state. A component rendered anew starts
  from its initial state.
\<close>

record app =
  page :: analysisPage
  progressTracker :: "tracker option"

definition trackerRendered :: "analysisPage \<Rightarrow> bool" where
  "trackerRendered p = (activeStep p = 2 \<and> \<not> analyzing p)"

definition rerender :: "app \<Rightarrow> app" where
  "rerender a =
     (if trackerRendered (page a)
      then (case progressTracker a of
              None \<Rightarrow> a\<lparr>progressTracker := Some initialTracker\<rparr>
            | Some t \<Rightarrow> a)
      else a\<lparr>progressTracker := None\<rparr>)"

definition updatePage :: "(analysisPage \<Rightarrow> analysisPage) \<Rightarrow> app \<Rightarrow> app" where
  "updatePage f a = rerender (a\<lparr>page := f (page a)\<rparr>)"

definition deliver :: "app \<Rightarrow> event \<Rightarrow> app \<times> command list" where
  "deliver a ev =
     (case progressTracker a of
        None \<Rightarrow> (a, [])
      | Some t \<Rightarrow>
          (case trackerStep (jobId (page a)) t ev of
             (t', cs) \<Rightarrow> (a\<lparr>progressTracker := Some t'\<rparr>, cs)))"

text \<open>Delivering a list of events, collecting the commands they cause.\<close>

fun deliverAll :: "app \<Rightarrow> event list \<Rightarrow> app \<times> command list" where
  "deliverAll a [] = (a, [])"
| "deliverAll a (ev # evs) =
     (case deliver a ev of
        (a', cs) \<Rightarrow> (case deliverAll a' evs of (a'', cs') \<Rightarrow> (a'', cs @ cs')))"

section \<open>Example states\<close>

definition initialRulesMatrix :: rulesMatrix where
  "initialRulesMatrix =
     \<lparr>rules = Map.empty, rulesError = None, rulesSuccess = False, rulesLoading = True,
      rulesSaving = False\<rparr>"

definition exampleMatrix :: rulesMatrix where
  "exampleMatrix =
     \<lparr>rules = Map.empty(''blog'' \<mapsto> Map.empty(''product'' \<mapsto> \<lparr>min_links = 2, max_links = 5\<rparr>)),
      rulesError = None, rulesSuccess = False, rulesLoading = False, rulesSaving = False\<rparr>"


definition runningFrame :: frame where
  "runningFrame =
     \<lparr>status = ''running'', progress = 40, message = Some ''Analyse de la page 10/25'',
      result_file = None, otherFields = []\<rparr>"

definition completedFrame :: frame where
  "completedFrame =
     \<lparr>status = ''completed'', progress = 100, message = Some ''Analyse finie'',
      result_file = Some ''r1.xlsx'', otherFields = []\<rparr>"


definition runningWithResult :: frame where
  "runningWithResult =
     \<lparr>status = ''running'', progress = 100, message = Some ''Export'',
      result_file = Some ''r1.xlsx'', otherFields = []\<rparr>"

definition textFrame :: "string \<Rightarrow> frame" where
  "textFrame m =
     \<lparr>status = ''running'', progress = 10, message = Some m, result_file = None,
      otherFields = []\<rparr>"

definition monitoringTracker :: tracker where
  "monitoringTracker =
     \<lparr>jobStatus = Some runningFrame, loading = False, error = None,
      logHistory = [''Analyse de la page 10/25''], readyState = 3\<rparr>"

definition almostDoneTracker :: tracker where
  "almostDoneTracker = monitoringTracker\<lparr>jobStatus := Some runningWithResult\<rparr>"

definition interruptedStream :: "event list" where
  "interruptedStream =
     [WsOpen, WsMessage (Some runningFrame), WsError, StatusResponse (Rejected None),
      WsClose, WsReadyState 3, WsError]"

definition repeatedStream :: "event list" where
  "repeatedStream =
     [WsMessage (Some runningFrame), WsMessage (Some runningFrame),
      WsMessage (Some completedFrame)]"

definition staleEvents :: "event list" where
  "staleEvents =
     [WsMessage (Some runningFrame), StatusResponse (Resolved (Some runningFrame)),
      PingInterval]"

definition contentDescriptor :: fileDescriptor where
  "contentDescriptor = \<lparr>path = ''/uploads/content.xlsx'', filename = ''content.xlsx''\<rparr>"

definition configuredPage :: analysisPage where
  "configuredPage =
     \<lparr>activeStep = 1,
      contentFile = Some contentDescriptor,
      linksFile = Some \<lparr>path = ''/uploads/links.xlsx'', filename = ''links.xlsx''\<rparr>,
      gscFile = None,
      minSimilarity = 0.5, anchorSuggestions = 7, analyzing = False, pageError = None,
      jobId = None\<rparr>"

definition submittingPage :: analysisPage where
  "submittingPage = configuredPage\<lparr>analyzing := True\<rparr>"

definition submittedForm :: "(string \<times> formValue) list" where
  "submittedForm =
     [(''content_file'', PathValue ''/uploads/content.xlsx''),
      (''links_file'', PathValue ''/uploads/links.xlsx''),
      (''config'', ConfigValue 0.5 7)]"

definition monitoringApp :: app where
  "monitoringApp =
     \<lparr>page = configuredPage\<lparr>activeStep := 2, jobId := Some ''abc123''\<rparr>,
      progressTracker = Some monitoringTracker\<rparr>"

section \<open>Properties of the rule matrix\<close>









lemma parseInt_3: "parseInt ''3'' = Some 3"
  by code_simp

lemma parseInt_minus_4: "parseInt ''-4'' = Some (- 4)"
  by code_simp

lemma parseInt_abc: "parseInt ''abc'' = None"
  by code_simp

lemma parseInt_fraction: "parseInt ''3.7'' = Some 3"
  by code_simp

lemma handleRuleChange_accept:
  assumes "parseInt v = Some n" "0 \<le> n"
  shows "\<exists>st'. handleRuleChange st s t fld v = Some st'
     \<and> cellAt st' s t =
         Some \<lparr>min_links = (case fld of MinLinksField \<Rightarrow> n
                            | MaxLinksField \<Rightarrow> min (min_links (cellOrDefault st s t)) n),
               max_links = (case fld of MaxLinksField \<Rightarrow> n
                            | MinLinksField \<Rightarrow> max (max_links (cellOrDefault st s t)) n)\<rparr>
     \<and> (\<forall>s' t'. (s', t') \<noteq> (s, t) \<longrightarrow> cellAt st' s' t' = cellAt st s' t')"
  using assms
  by (cases fld)
     (auto simp: handleRuleChange_def Let_def cellAt_def cellOrDefault_def
           split: option.splits)







text \<open>
  C9, as the code has it. A call returns early, leaving the component state (every cell
  and the error) as it was, exactly when \<open>parseInt\<close> of the value is \<open>NaN\<close> or negative. A
  value that \<open>parseInt\<close> converts to a non-negative integer is written to the cell, also when
  the value itself is not an integer.
\<close>

theorem rejection_follows_parseInt:
  "(handleRuleChange st s t fld v = None)
     = (case parseInt v of None \<Rightarrow> True | Some numValue \<Rightarrow> numValue < 0)
   \<and> (handleRuleChange st s t fld v = None \<longrightarrow> afterRuleChange st (s, t, fld, v) = st)
   \<and> (\<forall>n. parseInt v = Some n \<and> 0 \<le> n \<longrightarrow>
        (\<exists>c. cellAt (afterRuleChange st (s, t, fld, v)) s t = Some c
           \<and> (case fld of MinLinksField \<Rightarrow> min_links c | MaxLinksField \<Rightarrow> max_links c) = n))"
proof -
  have a: "(handleRuleChange st s t fld v = None)
     = (case parseInt v of None \<Rightarrow> True | Some numValue \<Rightarrow> numValue < 0)"
    by (simp add: handleRuleChange_def Let_def split: option.splits)
  have b: "handleRuleChange st s t fld v = None \<longrightarrow> afterRuleChange st (s, t, fld, v) = st"
    by (simp add: afterRuleChange_def)
  have c: "\<forall>n. parseInt v = Some n \<and> 0 \<le> n \<longrightarrow>
        (\<exists>c. cellAt (afterRuleChange st (s, t, fld, v)) s t = Some c
           \<and> (case fld of MinLinksField \<Rightarrow> min_links c | MaxLinksField \<Rightarrow> max_links c) = n)"
  proof (intro allI impI)
    fix n assume n: "parseInt v = Some n \<and> 0 \<le> n"
    from handleRuleChange_accept[of v n st s t fld] n
    show "\<exists>c. cellAt (afterRuleChange st (s, t, fld, v)) s t = Some c
           \<and> (case fld of MinLinksField \<Rightarrow> min_links c | MaxLinksField \<Rightarrow> max_links c) = n"
      by (cases fld) (auto simp: afterRuleChange_def)
  qed
  from a b c show ?thesis by blast
qed

theorem rejection_follows_parseInt_witness:
  "handleRuleChange exampleMatrix ''blog'' ''product'' MinLinksField ''-4'' = None
   \<and> afterRuleChange exampleMatrix (''blog'', ''product'', MinLinksField, ''-4'') = exampleMatrix
   \<and> handleRuleChange exampleMatrix ''blog'' ''product'' MaxLinksField ''abc'' = None
   \<and> cellAt (afterRuleChange exampleMatrix (''blog'', ''product'', MinLinksField, ''3''))
        ''blog'' ''product'' = Some \<lparr>min_links = 3, max_links = 5\<rparr>"
proof -
  have w: "cellAt (afterRuleChange exampleMatrix (''blog'', ''product'', MinLinksField, ''3''))
        ''blog'' ''product'' = Some \<lparr>min_links = 3, max_links = 5\<rparr>"
    by (simp add: afterRuleChange_def handleRuleChange_def parseInt_3 exampleMatrix_def
          cellAt_def Let_def)
  show ?thesis
    using w
      rejection_follows_parseInt[of exampleMatrix "''blog''" "''product''" MinLinksField "''-4''"]
      rejection_follows_parseInt[of exampleMatrix "''blog''" "''product''" MaxLinksField "''abc''"]
      rejection_follows_parseInt[of exampleMatrix "''blog''" "''product''" MinLinksField "''3''"]
    by (simp add: parseInt_minus_4 parseInt_abc)
qed

text \<open>
  C9 as stated fails: the value \<open>3.7\<close> is not a non-negative integer, yet the call writes 3
  into a cell of the empty matrix.
\<close>

theorem fractional_value_is_applied:
  "\<not> isNonNegativeInteger ''3.7''
   \<and> cellAt initialRulesMatrix ''blog'' ''product'' = None
   \<and> cellAt (afterRuleChange initialRulesMatrix (''blog'', ''product'', MinLinksField, ''3.7''))
        ''blog'' ''product'' = Some \<lparr>min_links = 3, max_links = 3\<rparr>"
proof -
  have n: "\<not> isNonNegativeInteger ''3.7''" by code_simp
  show ?thesis
    using n
    by (simp add: afterRuleChange_def handleRuleChange_def parseInt_fraction
          initialRulesMatrix_def cellAt_def Let_def)
qed

section \<open>Properties of the progress tracker\<close>

lemma runTracker_snoc:
  "runTracker j t (evs @ [ev]) = fst (trackerStep j (runTracker j t evs) ev)"
  by (simp add: runTracker_def)

text \<open>
  C1. Whatever events came before (frames, socket errors, closes, poll responses, in any
  number and order), once a frame has been processed \<open>jobStatus\<close> is that frame, whole: no
  field of an earlier value survives.
\<close>

theorem last_frame_replaces_status:
  "jobStatus (runTracker j t (evs @ [WsMessage (Some f)])) = Some f"
  by (simp add: runTracker_snoc trackerStep_def onLastJsonMessage_def split: option.splits)

theorem last_frame_replaces_status_witness:
  "jobStatus (runTracker (Some ''abc123'') initialTracker
      (interruptedStream @ [WsMessage (Some completedFrame)])) = Some completedFrame"
  using last_frame_replaces_status[of "Some ''abc123''" initialTracker interruptedStream
      completedFrame]
  by simp

lemma noAdjacentRepeat_snoc:
  "noAdjacentRepeat (xs @ [m]) = (noAdjacentRepeat xs \<and> (xs = [] \<or> last xs \<noteq> m))"
  by (induction xs rule: noAdjacentRepeat.induct) auto

lemma trackerStep_log:
  "noAdjacentRepeat (logHistory t) \<Longrightarrow> noAdjacentRepeat (logHistory (fst (trackerStep j t ev)))"
  by (cases ev)
     (auto simp: trackerStep_def onOpen_def onError_def onClose_def onLastJsonMessage_def
        onReadyState_def onPingInterval_def fetchStatusHTTP_then_def handleStopAnalysis_def
        handleStopAnalysis_then_def noAdjacentRepeat_snoc
        split: option.splits settled.splits)

lemma runTracker_log:
  "noAdjacentRepeat (logHistory t) \<Longrightarrow> noAdjacentRepeat (logHistory (runTracker j t evs))"
  unfolding runTracker_def
  by (induction evs arbitrary: t) (simp_all add: trackerStep_log)

text \<open>
  C3. After any sequence of events delivered to a freshly mounted tracker, no two
  neighbouring entries of the log are the same text. A text can come back once another one
  has been logged in between: the frames \<open>a, a, b, a\<close> leave the log \<open>a, b, a\<close>.
\<close>

theorem log_has_no_adjacent_repeat:
  "noAdjacentRepeat (logHistory (runTracker j initialTracker evs))
   \<and> logHistory (runTracker j initialTracker
        [WsMessage (Some (textFrame ''a'')), WsMessage (Some (textFrame ''a'')),
         WsMessage (Some (textFrame ''b'')), WsMessage (Some (textFrame ''a''))])
      = [''a'', ''b'', ''a'']"
proof -
  have "noAdjacentRepeat (logHistory initialTracker)"
    by (simp add: initialTracker_def)
  then have inv: "noAdjacentRepeat (logHistory (runTracker j initialTracker evs))"
    by (rule runTracker_log)
  have ex: "logHistory (runTracker j initialTracker
        [WsMessage (Some (textFrame ''a'')), WsMessage (Some (textFrame ''a'')),
         WsMessage (Some (textFrame ''b'')), WsMessage (Some (textFrame ''a''))])
      = [''a'', ''b'', ''a'']"
    by (simp add: runTracker_def trackerStep_def onLastJsonMessage_def initialTracker_def
          textFrame_def)
  from inv ex show ?thesis by simp
qed

theorem log_has_no_adjacent_repeat_witness:
  "noAdjacentRepeat (logHistory (runTracker None initialTracker repeatedStream))
   \<and> logHistory (runTracker None initialTracker repeatedStream)
     = [''Analyse de la page 10/25'', ''Analyse finie'']"
proof -
  have "logHistory (runTracker None initialTracker repeatedStream)
     = [''Analyse de la page 10/25'', ''Analyse finie'']"
    by (simp add: repeatedStream_def runTracker_def trackerStep_def onLastJsonMessage_def
          initialTracker_def runningFrame_def completedFrame_def)
  then show ?thesis
    using log_has_no_adjacent_repeat[of None repeatedStream]
    by simp
qed




lemma statusErrorMessage_nonempty: "statusErrorMessage \<noteq> []"
  by (simp add: statusErrorMessage_def)

lemma orElse_nonempty: "d \<noteq> [] \<Longrightarrow> orElse x d \<noteq> []"
  by (simp add: orElse_def split: option.splits)

text \<open>
  C5, as the code has it. A rejected status request leaves \<open>jobStatus\<close> and the log as they
  were. It sets \<open>error\<close> to the detail of the rejection, or to a default text, and from then
  on the component renders the error panel with that text. It issues no request, and the
  interval that follows issues no status request either: nothing retries the poll.
\<close>

theorem failed_poll_sets_error:
  "jobStatus (fst (fetchStatusHTTP_then t (Rejected detail))) = jobStatus t
   \<and> logHistory (fst (fetchStatusHTTP_then t (Rejected detail))) = logHistory t
   \<and> error (fst (fetchStatusHTTP_then t (Rejected detail)))
       = Some (orElse detail statusErrorMessage)
   \<and> render (fst (fetchStatusHTTP_then t (Rejected detail)))
       = ErrorPanel (orElse detail statusErrorMessage)
   \<and> snd (fetchStatusHTTP_then t (Rejected detail)) = []
   \<and> GetJob \<notin> set (snd (onPingInterval (fst (fetchStatusHTTP_then t (Rejected detail)))))"
  using orElse_nonempty[OF statusErrorMessage_nonempty, of detail]
  by (simp add: fetchStatusHTTP_then_def render_def truthy_def onPingInterval_def orElse_def
        split: option.splits)

theorem failed_poll_sets_error_witness:
  "render (fst (trackerStep (Some ''abc123'') monitoringTracker
       (StatusResponse (Rejected (Some ''Job not found'')))))
     = ErrorPanel ''Job not found''
   \<and> jobStatus (fst (trackerStep (Some ''abc123'') monitoringTracker
       (StatusResponse (Rejected (Some ''Job not found'')))))
     = Some runningFrame"
  using failed_poll_sets_error[of monitoringTracker "Some ''Job not found''"]
  by (simp add: trackerStep_def orElse_def monitoringTracker_def)

text \<open>
  C5 as stated fails: a tracker that shows the status of a running job shows the error
  panel after one rejected status request, and neither the rejection nor the next interval
  issues a request.
\<close>

theorem failed_poll_is_shown:
  "render monitoringTracker \<noteq> ErrorPanel statusErrorMessage
   \<and> render (fst (trackerStep (Some ''abc123'') monitoringTracker
        (StatusResponse (Rejected None))))
     = ErrorPanel statusErrorMessage
   \<and> snd (trackerStep (Some ''abc123'') monitoringTracker (StatusResponse (Rejected None))) = []
   \<and> snd (trackerStep (Some ''abc123'')
        (fst (trackerStep (Some ''abc123'') monitoringTracker (StatusResponse (Rejected None))))
        PingInterval) = []"
  using statusErrorMessage_nonempty
  by (simp add: trackerStep_def fetchStatusHTTP_then_def render_def truthy_def orElse_def
        monitoringTracker_def onPingInterval_def)

text \<open>
  C10. When the status panel is rendered, the result actions are shown exactly when the
  status is \<open>completed\<close>, or \<open>result_file\<close> is truthy and the progress is 100. So a job that is
  \<open>running\<close> with a result file and progress 100 gets the result actions, while its chip
  still reads "En cours" and the button that forces the end is still shown.
\<close>

theorem result_actions_shown:
  assumes "\<not> loading t" "\<not> truthy (error t)" "jobStatus t = Some js"
  shows "\<exists>panel. render t = StatusPanel panel
     \<and> resultActions panel
         = (status js = ''completed'' \<or> (truthy (result_file js) \<and> progress js = 100))
     \<and> (status js = ''running'' \<and> truthy (result_file js) \<and> progress js = 100
          \<longrightarrow> resultActions panel \<and> forceButton panel \<and> chipLabel panel = ''En cours'')"
  using assms by (simp add: render_def getStatusLabel_def)

theorem result_actions_shown_witness:
  "\<not> loading almostDoneTracker
   \<and> \<not> truthy (error almostDoneTracker)
   \<and> jobStatus almostDoneTracker = Some runningWithResult
   \<and> render almostDoneTracker
       = StatusPanel
           \<lparr>chipLabel = ''En cours'', chipColor = ''primary'', messageText = Some ''Export'',
            progressValue = 100, logItems = [''Analyse de la page 10/25''],
            resultActions = True, forceButton = True, failedNotice = False\<rparr>"
proof -
  have h1: "\<not> loading almostDoneTracker"
    by (simp add: almostDoneTracker_def monitoringTracker_def)
  have h2: "\<not> truthy (error almostDoneTracker)"
    by (simp add: almostDoneTracker_def monitoringTracker_def truthy_def)
  have h3: "jobStatus almostDoneTracker = Some runningWithResult"
    by (simp add: almostDoneTracker_def)
  have r: "render almostDoneTracker
       = StatusPanel
           \<lparr>chipLabel = ''En cours'', chipColor = ''primary'', messageText = Some ''Export'',
            progressValue = 100, logItems = [''Analyse de la page 10/25''],
            resultActions = True, forceButton = True, failedNotice = False\<rparr>"
    by (simp add: render_def almostDoneTracker_def monitoringTracker_def runningWithResult_def
          truthy_def getStatusLabel_def getStatusColor_def)
  from h1 h2 h3 r result_actions_shown[OF h1 h2 h3]
  show ?thesis by blast
qed

section \<open>Properties of the workflow\<close>

lemma startErrorMessage_not_503: "startErrorMessage \<noteq> ''503''"
  by (simp add: startErrorMessage_def)

text \<open>
  C6, as the code has it. A rejected submission request, whatever its reason and whatever
  state the page is in when it arrives, sets the error to one fixed start-error text and
  clears \<open>analyzing\<close>; the step, the three files, the two settings and the job id stay as
  they are, as they do when \<open>startAnalysis\<close> sends the request. So the page is in the
  configuration step after the failure exactly when it shows step 1 at that moment; when the
  rejection follows the submission directly, the state is the one before the submission
  with the error set.
\<close>

theorem failed_submission_shows_fixed_message:
  "startAnalysis_then q (Rejected reason)
     = q\<lparr>pageError := Some startErrorMessage, analyzing := False\<rparr>
   \<and> configuring (startAnalysis_then q (Rejected reason)) = (activeStep q = 1)
   \<and> activeStep (fst (startAnalysis p)) = activeStep p
   \<and> contentFile (fst (startAnalysis p)) = contentFile p
   \<and> linksFile (fst (startAnalysis p)) = linksFile p
   \<and> gscFile (fst (startAnalysis p)) = gscFile p
   \<and> minSimilarity (fst (startAnalysis p)) = minSimilarity p
   \<and> anchorSuggestions (fst (startAnalysis p)) = anchorSuggestions p
   \<and> jobId (fst (startAnalysis p)) = jobId p
   \<and> (configuring p \<and> contentFile p = Some content \<longrightarrow>
        snd (startAnalysis p) = [PostAnalyze (buildFormData p content)]
        \<and> startAnalysis_then (fst (startAnalysis p)) (Rejected reason)
            = p\<lparr>pageError := Some startErrorMessage\<rparr>
        \<and> configuring (startAnalysis_then (fst (startAnalysis p)) (Rejected reason)))"
proof -
  have a: "startAnalysis_then q (Rejected reason)
     = q\<lparr>pageError := Some startErrorMessage, analyzing := False\<rparr>"
    by (simp add: startAnalysis_then_def)
  have b: "configuring (startAnalysis_then q (Rejected reason)) = (activeStep q = 1)"
    by (simp add: a configuring_def)
  have c: "activeStep (fst (startAnalysis p)) = activeStep p
   \<and> contentFile (fst (startAnalysis p)) = contentFile p
   \<and> linksFile (fst (startAnalysis p)) = linksFile p
   \<and> gscFile (fst (startAnalysis p)) = gscFile p
   \<and> minSimilarity (fst (startAnalysis p)) = minSimilarity p
   \<and> anchorSuggestions (fst (startAnalysis p)) = anchorSuggestions p
   \<and> jobId (fst (startAnalysis p)) = jobId p"
    by (simp add: startAnalysis_def split: option.splits)
  have d: "configuring p \<and> contentFile p = Some content \<longrightarrow>
        snd (startAnalysis p) = [PostAnalyze (buildFormData p content)]
        \<and> startAnalysis_then (fst (startAnalysis p)) (Rejected reason)
            = p\<lparr>pageError := Some startErrorMessage\<rparr>
        \<and> configuring (startAnalysis_then (fst (startAnalysis p)) (Rejected reason))"
    by (cases p) (simp add: startAnalysis_def startAnalysis_then_def configuring_def)
  from a b c d show ?thesis by blast
qed

theorem failed_submission_shows_fixed_message_witness:
  "configuring configuredPage
   \<and> contentFile configuredPage = Some contentDescriptor
   \<and> startAnalysis_then (fst (startAnalysis configuredPage)) (Rejected (Some ''503''))
       = configuredPage\<lparr>pageError := Some startErrorMessage\<rparr>
   \<and> configuring (startAnalysis_then (fst (startAnalysis configuredPage)) (Rejected (Some ''503'')))"
proof -
  have h1: "configuring configuredPage"
    by (simp add: configuring_def configuredPage_def)
  have h2: "contentFile configuredPage = Some contentDescriptor"
    by (simp add: configuredPage_def)
  from failed_submission_shows_fixed_message[of _ "Some ''503''" configuredPage contentDescriptor]
    h1 h2
  show ?thesis by blast
qed

text \<open>
  C6 as stated fails: the text shown after a rejection with reason \<open>503\<close> is the fixed one,
  the same as for any other reason; and after "Retour" while the request is in flight, the
  rejection leaves the page on step 0, not in the configuration step.
\<close>

theorem failed_submission_hides_reason:
  "pageError (startAnalysis_then (fst (startAnalysis configuredPage)) (Rejected (Some ''503'')))
     = Some startErrorMessage
   \<and> startErrorMessage \<noteq> ''503''
   \<and> startAnalysis_then (fst (startAnalysis configuredPage)) (Rejected (Some ''503''))
     = startAnalysis_then (fst (startAnalysis configuredPage)) (Rejected (Some ''quota''))
   \<and> configuring configuredPage
   \<and> activeStep (startAnalysis_then (handleBack (fst (startAnalysis configuredPage)))
        (Rejected (Some ''503''))) = 0
   \<and> \<not> configuring (startAnalysis_then (handleBack (fst (startAnalysis configuredPage)))
        (Rejected (Some ''503'')))"
  using startErrorMessage_not_503
  by (simp add: startAnalysis_then_def startAnalysis_def handleBack_def configuring_def
        configuredPage_def)

text \<open>
  C7, as the code has it. While a submission is in flight (step 1, \<open>analyzing\<close> set) and a
  content file is present, the button still calls \<open>startAnalysis\<close>, which posts the form
  again; of the state it only clears the error, so the page is still submitting, now with
  one more request in flight.
\<close>

theorem submit_while_submitting_posts_again:
  assumes "submitting p" "contentFile p = Some content"
  shows "mainButton p = startAnalysis p
     \<and> startAnalysis p = (p\<lparr>pageError := None\<rparr>, [PostAnalyze (buildFormData p content)])
     \<and> submitting (fst (startAnalysis p))"
  using assms
  by (cases p) (simp add: mainButton_def startAnalysis_def submitting_def)

theorem submit_while_submitting_posts_again_witness:
  "submitting submittingPage
   \<and> contentFile submittingPage = Some contentDescriptor
   \<and> mainButton submittingPage = (submittingPage, [PostAnalyze submittedForm])"
proof -
  have h1: "submitting submittingPage"
    by (simp add: submitting_def submittingPage_def configuredPage_def)
  have h2: "contentFile submittingPage = Some contentDescriptor"
    by (simp add: submittingPage_def configuredPage_def)
  have e: "submittingPage\<lparr>pageError := None\<rparr> = submittingPage"
    by (simp add: submittingPage_def configuredPage_def)
  have f: "buildFormData submittingPage contentDescriptor = submittedForm"
    by (simp add: buildFormData_def submittingPage_def configuredPage_def contentDescriptor_def
          submittedForm_def)
  from submit_while_submitting_posts_again[OF h1 h2] h1 h2 e f
  show ?thesis by simp
qed

text \<open>
  C7 as stated fails: on a page that is submitting, the button posts the form once more.
\<close>

theorem second_submit_is_not_noop:
  "submitting submittingPage
   \<and> snd (mainButton submittingPage) = [PostAnalyze submittedForm]
   \<and> snd (mainButton submittingPage) \<noteq> []"
  by (simp add: mainButton_def startAnalysis_def submitting_def submittingPage_def
        configuredPage_def buildFormData_def contentDescriptor_def submittedForm_def)

lemma deliverAll_unmounted:
  "progressTracker a = None \<Longrightarrow> deliverAll a evs = (a, [])"
  by (induction evs) (simp_all add: deliver_def)

text \<open>
  C8, as the code has it. From any state, the reset shows step 0 and clears the three
  files, the job id and the error; the tracker is no longer rendered, so its status and log
  are gone, and no event that arrives afterwards (a frame, a poll response, an interval)
  changes anything or causes a command. The similarity threshold and the number of anchor
  suggestions keep the values they had.
\<close>

theorem reset_clears_run_keeps_config:
  "collectingInputs (page (updatePage handleReset a))
   \<and> contentFile (page (updatePage handleReset a)) = None
   \<and> linksFile (page (updatePage handleReset a)) = None
   \<and> gscFile (page (updatePage handleReset a)) = None
   \<and> jobId (page (updatePage handleReset a)) = None
   \<and> pageError (page (updatePage handleReset a)) = None
   \<and> minSimilarity (page (updatePage handleReset a)) = minSimilarity (page a)
   \<and> anchorSuggestions (page (updatePage handleReset a)) = anchorSuggestions (page a)
   \<and> progressTracker (updatePage handleReset a) = None
   \<and> deliverAll (updatePage handleReset a) evs = (updatePage handleReset a, [])"
proof -
  have t: "progressTracker (updatePage handleReset a) = None"
    by (simp add: updatePage_def rerender_def trackerRendered_def handleReset_def)
  have p: "page (updatePage handleReset a) = handleReset (page a)"
    by (simp add: updatePage_def rerender_def trackerRendered_def handleReset_def)
  show ?thesis
    using deliverAll_unmounted[OF t, of evs] t
    by (simp add: p handleReset_def collectingInputs_def)
qed

theorem reset_clears_run_keeps_config_witness:
  "progressTracker monitoringApp = Some monitoringTracker
   \<and> progressTracker (updatePage handleReset monitoringApp) = None
   \<and> deliverAll (updatePage handleReset monitoringApp) staleEvents
      = (updatePage handleReset monitoringApp, [])
   \<and> minSimilarity (page (updatePage handleReset monitoringApp)) = 0.5"
  using reset_clears_run_keeps_config[of monitoringApp staleEvents]
  by (simp add: monitoringApp_def configuredPage_def)

text \<open>
  C8 as stated fails: after a run configured with threshold 0.5 and 7 anchor suggestions,
  the reset leaves 0.5 and 7 in place, where a fresh page has 0.2 and 3.
\<close>

theorem reset_keeps_analysis_config:
  "minSimilarity (page monitoringApp) = 0.5
   \<and> anchorSuggestions (page monitoringApp) = 7
   \<and> minSimilarity (page (updatePage handleReset monitoringApp)) = 0.5
   \<and> anchorSuggestions (page (updatePage handleReset monitoringApp)) = 7
   \<and> minSimilarity initialPage = 0.2
   \<and> anchorSuggestions initialPage = 3
   \<and> page (updatePage handleReset monitoringApp) \<noteq> initialPage"
proof -
  have p: "page (updatePage handleReset monitoringApp) = handleReset (page monitoringApp)"
    by (simp add: updatePage_def rerender_def trackerRendered_def handleReset_def)
  have before: "minSimilarity (page monitoringApp) = 0.5
      \<and> anchorSuggestions (page monitoringApp) = 7"
    by (simp add: monitoringApp_def configuredPage_def)
  have after: "minSimilarity (handleReset (page monitoringApp)) = 0.5
      \<and> anchorSuggestions (handleReset (page monitoringApp)) = 7"
    by (simp add: handleReset_def monitoringApp_def configuredPage_def)
  have init: "minSimilarity initialPage = 0.2 \<and> anchorSuggestions initialPage = 3"
    by (simp add: initialPage_def)
  have ne: "handleReset (page monitoringApp) \<noteq> initialPage"
  proof
    assume "handleReset (page monitoringApp) = initialPage"
    then have "anchorSuggestions (handleReset (page monitoringApp)) = anchorSuggestions initialPage"
      by simp
    with after init show False by simp
  qed
  from before after init ne show ?thesis
    unfolding p by blast
qed

end
